theory Spec2Isabelle
  imports Main
begin

section \<open>Go values, errors and panics\<close>

text \<open>
  The package \<open>sugar\<close> is five generic Go functions: \<open>Must\<close>, \<open>Try\<close>, \<open>Ptr\<close>,
  \<open>Zero\<close> and \<open>Handle\<close>. They are written over Go's interface type \<open>error\<close>, the
  builtins \<open>panic\<close> and \<open>recover\<close>, and \<open>fmt.Errorf\<close>. This section fixes how those
  are represented.

  A non-nil value of the interface type \<open>error\<close> is an \<open>err\<close>: one constructor per
  dynamic type that occurs in the package and its tests. Errors are compared by
  dynamic type and text.
\<close>

datatype err =
    ErrorString string    \<comment> \<open>\<open>*errors.errorString\<close>: what \<open>errors.New\<close> and \<open>fmt.Errorf\<close> build\<close>
  | RuntimeError string   \<comment> \<open>\<open>runtime.Error\<close> raised by the runtime itself\<close>
  | PanicNilError         \<comment> \<open>\<open>*runtime.PanicNilError\<close>: what \<open>panic(nil)\<close> raises\<close>

text \<open>The interface type \<open>error\<close>: \<open>None\<close> is the nil interface value.\<close>

type_synonym error = "err option"

text \<open>
  The method \<open>Error()\<close> of each dynamic type. The text of \<open>PanicNilError\<close> is the one
  the test \<open>panic_with_nil\<close> of \<open>try_test.go\<close> expects after the prefix \<open>panic: \<close>.
\<close>

fun Error :: "err \<Rightarrow> string" where
  "Error (ErrorString s) = s"
| "Error (RuntimeError s) = ''runtime error: '' @ s"
| "Error PanicNilError = ''panic called with nil argument''"

text \<open>
  A non-nil value of the empty interface \<open>any\<close>, as far as the package and its tests
  hand one to \<open>panic\<close>: a string, an \<open>int\<close>, a \<open>bool\<close>, or an error.
\<close>

datatype dyn =
    DString string
  | DInt int
  | DBool bool
  | DError err

type_synonym any = "dyn option"

text \<open>Converting an \<open>error\<close> to \<open>any\<close> keeps the dynamic value; nil stays nil.\<close>

definition any_of_error :: "error \<Rightarrow> any" where
  "any_of_error e = map_option DError e"

text \<open>
  How a call ends: it returns a value, or it panics. \<open>Panic\<close> carries the value a
  deferred \<open>recover()\<close> would obtain, which is never nil.
\<close>

datatype 'a outcome = Return 'a | Panic dyn

text \<open>
  The builtin \<open>panic(v)\<close>. Since Go 1.21 a nil argument is replaced by a
  \<open>*runtime.PanicNilError\<close>; every other argument is raised as it is.
\<close>

definition panic :: "any \<Rightarrow> 'a outcome" where
  "panic v = (case v of None \<Rightarrow> Panic (DError PanicNilError) | Some x \<Rightarrow> Panic x)"

text \<open>
  The builtin \<open>recover()\<close>, called in a deferred function of the frame whose body
  ended as given: nil when the body returned, the panic value otherwise.
\<close>

definition recover :: "'a outcome \<Rightarrow> any" where
  "recover out = (case out of Return _ \<Rightarrow> None | Panic p \<Rightarrow> Some p)"

fun is_Panic :: "'a outcome \<Rightarrow> bool" where
  "is_Panic (Panic _) = True"
| "is_Panic (Return _) = False"

section \<open>Must\<close>

text \<open>
  \<^verbatim>\<open>
  func Must[T any](v T, err error) T {
      if err != nil {
          panic(err)
      }
      return v
  }
  \<close>
\<close>

definition Must :: "'a \<Rightarrow> error \<Rightarrow> 'a outcome" where
  "Must v err = (if err \<noteq> None then panic (any_of_error err) else Return v)"

section \<open>Handle\<close>

text \<open>
  \<^verbatim>\<open>
  type Handler[T any] func(error) error
  \<close>
  A handler is a Go function value, so it may be nil (\<open>None\<close>). A non-nil handler
  is run on the error it is given: it may change what the caller can observe (it
  logs, it sets a flag, it fails a test), which is the state \<open>'s\<close> it transforms,
  and it returns an \<open>error\<close> or panics itself.
\<close>

type_synonym 's Handler = "(error \<Rightarrow> 's \<Rightarrow> error outcome \<times> 's) option"

text \<open>
  The call \<open>h(err)\<close> of a function value. Calling a nil function value is a nil
  dereference: the runtime panics with its \<open>runtime.Error\<close>, and nothing else
  happens.
\<close>

definition nil_func_call :: err where
  "nil_func_call = RuntimeError ''invalid memory address or nil pointer dereference''"

definition call_Handler :: "'s Handler \<Rightarrow> error \<Rightarrow> 's \<Rightarrow> error outcome \<times> 's" where
  "call_Handler h err s =
     (case h of
        None \<Rightarrow> (panic (Some (DError nil_func_call)), s)
      | Some hf \<Rightarrow> hf err s)"

text \<open>
  \<^verbatim>\<open>
  func Handle[T any](h Handler[T]) func(T, error) T {
      return func(v T, err error) T {
          if err != nil {
              err = h(err)
              if err != nil {
                  panic(err)
              }
          }
          return v
      }
  }
  \<close>
  \<open>Handle h\<close> is the constructed function; it takes \<open>v\<close>, \<open>err\<close> and the state the
  handler acts on. A panic of the handler itself passes through.
\<close>

definition Handle :: "'s Handler \<Rightarrow> 'a \<Rightarrow> error \<Rightarrow> 's \<Rightarrow> 'a outcome \<times> 's" where
  "Handle h v err s =
     (if err \<noteq> None then
        (case call_Handler h err s of
           (Panic p, s') \<Rightarrow> (Panic p, s')
         | (Return err', s') \<Rightarrow>
             (if err' \<noteq> None then (panic (any_of_error err'), s')
              else (Return v, s')))
      else (Return v, s))"

text \<open>The two handlers the specification names: \<open>e -> e\<close> and \<open>e -> nil\<close>.\<close>

definition identity_handler :: "'s Handler" where
  "identity_handler = Some (\<lambda>err s. (Return err, s))"

definition suppress_handler :: "'s Handler" where
  "suppress_handler = Some (\<lambda>err s. (Return None, s))"

section \<open>Zero\<close>

text \<open>
  \<open>Try\<close> and \<open>Zero\<close> depend on the type argument \<open>T\<close>, so Go types are data here:
  the kinds the tests of \<open>Zero\<close> and \<open>Try\<close> go through (integer, text, boolean,
  slice and map, pointer, struct), with the values of those types. \<open>VNil\<close> is the
  nil slice, map or pointer; a struct is the list of its fields.
\<close>

datatype gotype =
    TInt
  | TString
  | TBool
  | TSlice gotype
  | TMap gotype gotype
  | TPtr gotype
  | TStruct "gotype list"

datatype val =
    VInt int
  | VString string
  | VBool bool
  | VNil
  | VSlice "val list"
  | VMap "(val \<times> val) list"
  | VPtr nat
  | VStruct "val list"

text \<open>
  What Go gives a variable declared without an initial value (\<open>var x T\<close>), and a
  named result before it is assigned: \<open>false\<close> for booleans, \<open>0\<close> for numeric
  types, \<open>""\<close> for strings, nil for pointers, slices and maps, and for a struct each
  field so initialised in turn.
\<close>

fun nilable :: "gotype \<Rightarrow> bool" where
  "nilable (TSlice _) = True"
| "nilable (TMap _ _) = True"
| "nilable (TPtr _) = True"
| "nilable _ = False"

fun var_decl :: "gotype \<Rightarrow> val" where
  "var_decl T =
     (if nilable T then VNil
      else case T of
          TBool \<Rightarrow> VBool False
        | TInt \<Rightarrow> VInt 0
        | TString \<Rightarrow> VString []
        | TStruct fs \<Rightarrow> VStruct (map var_decl fs)
        | _ \<Rightarrow> VNil)"

text \<open>
  Modelled from the spec: the function \<open>Zero\<close> (\<open>zero.go\<close>), of which the sources
  hold only the tests and the callers. The specification: \<open>ZeroValue<T>()\<close>
  "returns the canonical default value for type T (numeric 0, empty text, false,
  empty/absent container, null reference, default-constructed aggregate with all
  fields defaulted)". The package's documentation gives \<open>Zero[[]int]()\<close> as nil,
  so the absent container is the one modelled.
\<close>

fun Zero :: "gotype \<Rightarrow> val" where
  "Zero TInt = VInt 0"
| "Zero TString = VString ''''"
| "Zero TBool = VBool False"
| "Zero (TSlice _) = VNil"
| "Zero (TMap _ _) = VNil"
| "Zero (TPtr _) = VNil"
| "Zero (TStruct fs) = VStruct (map Zero fs)"

section \<open>Formatting with fmt\<close>

text \<open>Decimal digits of a number, as \<open>%v\<close> prints an \<open>int\<close>.\<close>

fun digits :: "nat \<Rightarrow> string" where
  "digits n =
     (if n < 10 then [''0123456789'' ! n]
      else digits (n div 10) @ [''0123456789'' ! (n mod 10)])"

definition Itoa :: "int \<Rightarrow> string" where
  "Itoa i = (if i < 0 then CHR ''-'' # digits (nat (- i)) else digits (nat i))"

text \<open>
  The verb \<open>%v\<close> on one operand: a string as it is, an \<open>int\<close> in decimal, a \<open>bool\<close>
  as \<open>true\<close> or \<open>false\<close>, an error by its \<open>Error()\<close> method, and a nil operand as
  \<open><nil>\<close>.
\<close>

fun format_v :: "dyn \<Rightarrow> string" where
  "format_v (DString s) = s"
| "format_v (DInt i) = Itoa i"
| "format_v (DBool b) = (if b then ''true'' else ''false'')"
| "format_v (DError e) = Error e"

definition Sprint_v :: "any \<Rightarrow> string" where
  "Sprint_v a = (case a of None \<Rightarrow> ''<nil>'' | Some d \<Rightarrow> format_v d)"

text \<open>
  \<open>fmt.Sprintf(format, a)\<close> for a format whose only verb is one \<open>%v\<close>: the text
  before it, the operand, the text after it. \<open>fmt.Errorf\<close> with such a format
  (no \<open>%w\<close>) is \<open>errors.New\<close> of that text.
\<close>

fun Sprintf :: "string \<Rightarrow> any \<Rightarrow> string" where
  "Sprintf (c # d # fs) a =
     (if c = CHR ''%'' \<and> d = CHR ''v'' then Sprint_v a @ fs
      else c # Sprintf (d # fs) a)"
| "Sprintf fs a = fs"

definition Errorf :: "string \<Rightarrow> any \<Rightarrow> error" where
  "Errorf format a = Some (ErrorString (Sprintf format a))"

section \<open>Try\<close>

text \<open>
  \<^verbatim>\<open>
  func Try[T any](f func() T) (retval T, err error) {
      defer func() {
          if r := recover(); r != nil {
              retval = Zero[T]()
              err = fmt.Errorf("panic: %v", r)
          }
      }()
      return f(), nil
  }
  \<close>
  The deferred function, given what \<open>recover()\<close> returned and the named results
  \<open>(retval, err)\<close> as the body left them; it returns the named results.
\<close>

definition Try_deferred :: "gotype \<Rightarrow> any \<Rightarrow> val \<times> error \<Rightarrow> val \<times> error" where
  "Try_deferred T r res =
     (if r \<noteq> None then (Zero T, Errorf ''panic: %v'' r) else res)"

text \<open>
  \<open>f\<close> is a closure: it may change what it captured (the state \<open>'s\<close>) before it
  returns or panics. The body \<open>return f(), nil\<close> assigns the named results when
  \<open>f\<close> returns; when \<open>f\<close> panics they still hold their initial values. The
  deferred function then runs in both cases, and as it recovers, \<open>Try\<close> itself
  always returns.
\<close>

definition Try :: "gotype \<Rightarrow> ('s \<Rightarrow> val outcome \<times> 's) \<Rightarrow> 's \<Rightarrow> (val \<times> error) outcome \<times> 's" where
  "Try T f s =
     (case f s of (out, s') \<Rightarrow>
        (Return
           (Try_deferred T (recover out)
              (case out of
                 Return v \<Rightarrow> (v, None)
               | Panic _ \<Rightarrow> (var_decl T, None))),
         s'))"

section \<open>Ptr\<close>


type_synonym pointer = "nat option"





section \<open>Properties of Must\<close>

text \<open>
  C2. \<open>Must(v, err)\<close> returns \<open>v\<close> unchanged when \<open>err\<close> is nil. When \<open>err\<close> is a
  non-nil error \<open>e\<close> it panics, nothing is returned, and the panic value is \<open>e\<close>
  itself as an \<open>any\<close>: not its text and not an error wrapping it.
\<close>

theorem Must_returns_or_panics_with_err:
  "Must v None = Return v \<and> Must v (Some e) = Panic (DError e)"
  by (simp add: Must_def panic_def any_of_error_def)

section \<open>Properties of Handle\<close>

lemma Handle_nil_error: "Handle h v None s = (Return v, s)"
  by (simp add: Handle_def)

lemma Handle_nil_handler_error:
  "Handle None v (Some e) s = (Panic (DError nil_func_call), s)"
  by (simp add: Handle_def call_Handler_def panic_def)

text \<open>
  C3. With the identity handler \<open>e -> e\<close> the constructed function is \<open>Must\<close>: for
  every \<open>v\<close> and every \<open>err\<close>, nil or not, it ends as \<open>Must(v, err)\<close> ends (the same
  value returned, or a panic with the same value), and it changes nothing else.
\<close>

theorem Handle_identity_is_Must:
  "Handle identity_handler v err s = (Must v err, s)"
  by (simp add: Handle_def identity_handler_def call_Handler_def Must_def)

text \<open>
  C5. Called with a nil error, the constructed function returns \<open>v\<close> unchanged
  whatever the handler \<open>h\<close> is. The handler is not run: the state it would act on
  is returned as it was, so result and effects do not depend on \<open>h\<close>.
\<close>

theorem Handle_no_error_skips_handler:
  "Handle h v None s = (Return v, s) \<and> Handle h v None s = Handle h' v None s"
  by (simp add: Handle_def)

text \<open>
  C6, as the code has it. With a nil handler and a non-nil error \<open>e\<close> the
  constructed function panics with the runtime's nil-dereference error, returns
  nothing and changes nothing.
\<close>

theorem Handle_nil_handler_panics_on_error:
  "Handle None v (Some e) s = (Panic (DError nil_func_call), s) \<and>
   is_Panic (fst (Handle None v (Some e) s))"
  by (simp add: Handle_nil_handler_error)

text \<open>
  C6 as stated fails for a nil error: with a nil handler, \<open>''test''\<close> and a nil
  error the constructed function returns \<open>''test''\<close> and does not panic.
\<close>

theorem Handle_nil_handler_nil_error_returns:
  "Handle None ''test'' None (0::nat) = (Return ''test'', 0) \<and>
   \<not> is_Panic (fst (Handle None ''test'' None (0::nat)))"
  by (simp add: Handle_nil_error)

text \<open>
  C7. With the handler \<open>e -> nil\<close> the constructed function never panics: for every
  \<open>v\<close> and every \<open>err\<close>, nil or not, it returns \<open>v\<close>.
\<close>

theorem Handle_suppress_returns_value:
  "Handle suppress_handler v err s = (Return v, s)"
  by (simp add: Handle_def suppress_handler_def call_Handler_def)

text \<open>
  C10. With a nil handler and a nil error the constructed function returns \<open>v\<close>
  and changes nothing; and with a nil handler it panics exactly when the error
  is non-nil.
\<close>

theorem Handle_nil_handler_panics_iff_error:
  "Handle None v None s = (Return v, s) \<and>
   is_Panic (fst (Handle None v err s)) = (err \<noteq> None)"
  by (cases err) (simp_all add: Handle_nil_error Handle_nil_handler_error)

section \<open>Properties of Try\<close>

lemma Try_returns:
  "f s = (Return v, s') \<Longrightarrow> Try T f s = (Return (v, None), s')"
  by (simp add: Try_def Try_deferred_def recover_def)

lemma Try_panics:
  "f s = (Panic p, s') \<Longrightarrow>
   Try T f s = (Return (Zero T, Some (ErrorString (''panic: '' @ format_v p))), s')"
  by (simp add: Try_def Try_deferred_def recover_def Errorf_def Sprint_v_def)

text \<open>
  The deferred function acts only on a non-nil \<open>recover()\<close>. \<open>Try\<close> never meets a
  nil one while \<open>f\<close> is panicking, because \<open>panic\<close> never raises nil; under a
  runtime older than Go 1.21, where \<open>panic(nil)\<close> made \<open>recover()\<close> return nil,
  the named results would be returned as they stood.
\<close>

lemma Try_deferred_nil: "Try_deferred T None res = res"
  by (simp add: Try_deferred_def)

lemma recover_panic_not_nil: "recover (panic v) \<noteq> None"
  by (simp add: recover_def panic_def split: option.split)

text \<open>
  C1. For every type \<open>T\<close> and every \<open>f\<close>: when \<open>f()\<close> returns \<open>v\<close>, \<open>Try(f)\<close>
  returns \<open>(v, nil)\<close>; when \<open>f()\<close> panics with a payload \<open>p\<close> (a non-nil value
  handed to \<open>panic\<close>), \<open>Try(f)\<close> returns \<open>(Zero[T](), e)\<close> where \<open>e\<close> is a non-nil
  error whose message is \<open>panic: \<close> followed by \<open>p\<close> as \<open>%v\<close> prints it. What \<open>f\<close>
  did before it ended stays done.
\<close>

theorem Try_contract:
  "(f s = (Return v, s') \<longrightarrow> Try T f s = (Return (v, None), s')) \<and>
   (f s = (panic (Some p), s') \<longrightarrow>
      (\<exists>e. Try T f s = (Return (Zero T, Some e), s') \<and>
           Error e = ''panic: '' @ format_v p))"
  by (simp add: Try_returns Try_panics panic_def)

text \<open>
  The two halves at inputs of \<open>try_test.go\<close>: a function returning \<open>42\<close>, and
  one of result type \<open>bool\<close> that does some work and then calls \<open>panic(123)\<close>.
\<close>

theorem Try_contract_witness:
  "Try TInt (\<lambda>s. (Return (VInt 42), s)) (0::nat) = (Return (VInt 42, None), 0) \<and>
   (\<exists>e. Try TBool (\<lambda>s. (panic (Some (DInt 123)), Suc s)) (0::nat)
          = (Return (VBool False, Some e), 1) \<and>
        Error e = ''panic: 123'')"
proof
  show "Try TInt (\<lambda>s. (Return (VInt 42), s)) (0::nat) = (Return (VInt 42, None), 0)"
    by (rule Try_contract [THEN conjunct1, THEN mp]) simp
next
  have "\<exists>e. Try TBool (\<lambda>s. (panic (Some (DInt 123)), Suc s)) (0::nat)
          = (Return (Zero TBool, Some e), 1) \<and>
        Error e = ''panic: '' @ format_v (DInt 123)"
    by (rule Try_contract [THEN conjunct2, THEN mp]) simp
  then show "\<exists>e. Try TBool (\<lambda>s. (panic (Some (DInt 123)), Suc s)) (0::nat)
          = (Return (VBool False, Some e), 1) \<and>
        Error e = ''panic: 123''"
    by (simp add: Itoa_def)
qed

text \<open>
  C4. For every type \<open>T\<close>: when \<open>f()\<close> calls \<open>panic(nil)\<close>, \<open>Try(f)\<close> still
  intercepts it and returns \<open>(Zero[T](), e)\<close> with \<open>e\<close> non-nil, so the call is not
  reported as a success, and the message of \<open>e\<close> is \<open>panic: \<close> followed by the
  runtime's text for a panic without payload:
  \<open>panic: panic called with nil argument\<close>.
\<close>

theorem Try_nil_panic:
  "f s = (panic None, s') \<Longrightarrow>
     (\<exists>e. Try T f s = (Return (Zero T, Some e), s') \<and>
          Error e = ''panic: panic called with nil argument'')"
  by (simp add: Try_panics panic_def)

text \<open>The test \<open>panic_with_nil\<close>: result type \<open>[]int\<close>, body \<open>panic(nil)\<close>.\<close>

theorem Try_nil_panic_witness:
  "\<exists>e. Try (TSlice TInt) (\<lambda>s. (panic None, s)) (0::nat) = (Return (VNil, Some e), 0) \<and>
       Error e = ''panic: panic called with nil argument''"
  using Try_nil_panic [of "\<lambda>s. (panic None, s)" 0 0 "TSlice TInt"] by simp

section \<open>Properties of Zero\<close>

text \<open>
  C8. For every type \<open>T\<close> of the kinds modelled (integer, text, boolean, slice and
  map, pointer, struct), \<open>Zero[T]()\<close> is the value of a variable of type \<open>T\<close>
  declared without an initial value; and that value is \<open>0\<close>, the empty string,
  \<open>false\<close>, the nil slice and map, the nil pointer, and the struct whose fields
  each hold such a value.
\<close>

theorem Zero_is_var_decl:
  "Zero T = var_decl T \<and>
   var_decl TInt = VInt 0 \<and>
   var_decl TString = VString '''' \<and>
   var_decl TBool = VBool False \<and>
   var_decl (TSlice E) = VNil \<and>
   var_decl (TMap K E) = VNil \<and>
   var_decl (TPtr E) = VNil \<and>
   var_decl (TStruct fs) = VStruct (map var_decl fs)"
proof -
  have "Zero T = var_decl T"
    by (induction T rule: Zero.induct) simp_all
  then show ?thesis by simp
qed

section \<open>Properties of Ptr\<close>



end
